theory Spec2Isabelle
  imports Complex_Main "HOL-Library.AList"
begin

section \<open>BudgetBox: the budget store, the metrics calculator, the sync coordinator\<close>

text \<open>
  A shallow embedding of \<^verbatim>\<open>frontend/src/store/budgetStore.ts\<close>,
  \<^verbatim>\<open>frontend/src/lib/budget.ts\<close>, the two coordinator functions
  \<^verbatim>\<open>syncToServer\<close> and \<^verbatim>\<open>fetchLatest\<close> of the page component and the
  handlers of \<^verbatim>\<open>backend/src/server.ts\<close>.

  Conventions of the embedding.
  \<^item> A JavaScript \<^verbatim>\<open>number\<close> is a \<^typ>\<open>real\<close>: the finite values, with exact
    arithmetic. Rounding, the infinities and NaN are outside the model. A number is
    truthy when it is not zero.
  \<^item> \<^verbatim>\<open>new Date().toISOString()\<close> and \<^verbatim>\<open>crypto.randomUUID()\<close> read the
    environment; each function that calls one takes the value read as an argument
    (\<open>now\<close>, \<open>uuid\<close>).
  \<^item> An optional or nullable member is an \<^typ>\<open>'a option\<close>.
  \<^item> The store's \<^verbatim>\<open>set\<close> merges the partial state an action returns into the
    current state: a record update of exactly the members the action names.
  \<^item> Two records cannot share a field name, so the members of \<^verbatim>\<open>BudgetSnapshot\<close>
    are prefixed \<open>snap_\<close>, those of the server's \<^verbatim>\<open>BudgetRecord\<close> \<open>rec_\<close>.
\<close>

subsection \<open>Data model (budgetStore.ts)\<close>

record BudgetFields =
  income :: real
  monthlyBills :: real
  food :: real
  transport :: real
  subscriptions :: real
  miscellaneous :: real

datatype SyncStatus = LocalOnly | SyncPending | Synced

record BudgetSnapshot =
  snap_id :: string
  snap_timestamp :: string
  snap_budget :: BudgetFields

record BudgetState =
  budget :: BudgetFields
  syncStatus :: SyncStatus
  lastUpdatedAt :: "string option"
  lastSyncedAt :: "string option"
  userEmail :: string
  authToken :: "string option"
  history :: "BudgetSnapshot list"

text \<open>\<^verbatim>\<open>keyof BudgetFields\<close>, with the computed-key read and write of a member.\<close>

datatype FieldKey = Income | MonthlyBills | Food | Transport | Subscriptions | Miscellaneous

fun get_field :: "FieldKey \<Rightarrow> BudgetFields \<Rightarrow> real" where
  "get_field Income b = income b"
| "get_field MonthlyBills b = monthlyBills b"
| "get_field Food b = food b"
| "get_field Transport b = transport b"
| "get_field Subscriptions b = subscriptions b"
| "get_field Miscellaneous b = miscellaneous b"

fun set_field :: "FieldKey \<Rightarrow> real \<Rightarrow> BudgetFields \<Rightarrow> BudgetFields" where
  "set_field Income v b = b\<lparr>income := v\<rparr>"
| "set_field MonthlyBills v b = b\<lparr>monthlyBills := v\<rparr>"
| "set_field Food v b = b\<lparr>food := v\<rparr>"
| "set_field Transport v b = b\<lparr>transport := v\<rparr>"
| "set_field Subscriptions v b = b\<lparr>subscriptions := v\<rparr>"
| "set_field Miscellaneous v b = b\<lparr>miscellaneous := v\<rparr>"

definition initialBudget :: BudgetFields where
  "initialBudget =
     \<lparr>income = 0, monthlyBills = 0, food = 0, transport = 0, subscriptions = 0,
      miscellaneous = 0\<rparr>"

definition initialState :: BudgetState where
  "initialState =
     \<lparr>budget = initialBudget, syncStatus = LocalOnly, lastUpdatedAt = None,
      lastSyncedAt = None, userEmail = ''hire-me@anshumat.org'', authToken = None,
      history = []\<rparr>"

subsection \<open>Store actions (budgetStore.ts)\<close>

definition updateField :: "FieldKey \<Rightarrow> real \<Rightarrow> string \<Rightarrow> BudgetState \<Rightarrow> BudgetState" where
  "updateField field v now state =
     state\<lparr>budget := set_field field v (budget state),
           syncStatus := (if syncStatus state = Synced then SyncPending else syncStatus state),
           lastUpdatedAt := Some now\<rparr>"

definition setSyncStatus :: "SyncStatus \<Rightarrow> BudgetState \<Rightarrow> BudgetState" where
  "setSyncStatus st state = state\<lparr>syncStatus := st\<rparr>"

definition markSynced :: "string \<Rightarrow> BudgetState \<Rightarrow> BudgetState" where
  "markSynced ts state = state\<lparr>syncStatus := Synced, lastSyncedAt := Some ts\<rparr>"

definition hydrateFromServer ::
  "BudgetFields \<Rightarrow> string option \<Rightarrow> string \<Rightarrow> BudgetState \<Rightarrow> BudgetState" where
  "hydrateFromServer b syncedAt now state =
     state\<lparr>budget := b, syncStatus := Synced,
           lastSyncedAt := Some (case syncedAt of Some t \<Rightarrow> t | None \<Rightarrow> now)\<rparr>"

definition setUserEmail :: "string \<Rightarrow> BudgetState \<Rightarrow> BudgetState" where
  "setUserEmail email state = state\<lparr>userEmail := email\<rparr>"

definition setAuthToken :: "string option \<Rightarrow> BudgetState \<Rightarrow> BudgetState" where
  "setAuthToken token state = state\<lparr>authToken := token\<rparr>"

definition addSnapshot :: "string \<Rightarrow> string \<Rightarrow> BudgetState \<Rightarrow> BudgetState" where
  "addSnapshot uuid now state =
     (let snapshot = \<lparr>snap_id = uuid, snap_timestamp = now, snap_budget = budget state\<rparr>;
          nextHistory = take 20 (snapshot # history state)
      in state\<lparr>history := nextHistory\<rparr>)"

definition restoreSnapshot :: "string \<Rightarrow> string \<Rightarrow> BudgetState \<Rightarrow> BudgetState" where
  "restoreSnapshot i now state =
     (case find (\<lambda>h. snap_id h = i) (history state) of
        None \<Rightarrow> state
      | Some snap \<Rightarrow>
          state\<lparr>budget := snap_budget snap, syncStatus := LocalOnly,
                lastUpdatedAt := Some now\<rparr>)"

subsection \<open>Derived metrics (lib/budget.ts)\<close>

record Totals =
  expenses :: real
  burnRate :: real
  savings :: real
  monthEndPrediction :: real

definition truthy :: "real \<Rightarrow> bool" where
  "truthy x = (x \<noteq> 0)"

definition getTotals :: "BudgetFields \<Rightarrow> Totals" where
  "getTotals b =
     (let expenses = monthlyBills b + food b + transport b + subscriptions b + miscellaneous b;
          burnRate = (if truthy (income b) then expenses / income b else 0);
          savings = income b - expenses;
          monthEndPrediction = savings
      in \<lparr>expenses = expenses, burnRate = burnRate, savings = savings,
          monthEndPrediction = monthEndPrediction\<rparr>)"

text \<open>The em dash of the source's messages, as its three UTF-8 bytes.\<close>

definition em_dash :: string where
  "em_dash = [CHR 0xE2, CHR 0x80, CHR 0x94]"

definition food_warning :: string where
  "food_warning = ''Food spend is above 40% of income '' @ em_dash @ '' trim dining/groceries.''"

definition subscriptions_warning :: string where
  "subscriptions_warning =
     ''Subscriptions exceed 30% of income '' @ em_dash @ '' cancel unused apps.''"

definition overspend_warning :: string where
  "overspend_warning =
     ''Your expenses are higher than income '' @ em_dash @ '' cut variable costs.''"

definition burn_rate_warning :: string where
  "burn_rate_warning =
     ''Burn rate is above 1.0 '' @ em_dash @ '' you will run out before month-end.''"

definition getWarnings :: "BudgetFields \<Rightarrow> string list" where
  "getWarnings b =
     (let t = getTotals b in
        (if income b > 0 \<and> food b / income b > 0.4 then [food_warning] else []) @
        (if income b > 0 \<and> subscriptions b / income b > 0.3
         then [subscriptions_warning] else []) @
        (if savings t < 0 then [overspend_warning] else []) @
        (if burnRate t > 1 then [burn_rate_warning] else []))"

text \<open>
  The burn rate as the specification words it: expenses over income when income is
  positive, 0 otherwise.
\<close>

definition spec_burnRate :: "BudgetFields \<Rightarrow> real" where
  "spec_burnRate b =
     (if income b > 0
      then (monthlyBills b + food b + transport b + subscriptions b + miscellaneous b) / income b
      else 0)"

subsection \<open>The remote budget service (backend/src/server.ts)\<close>

text \<open>
  A JavaScript \<^verbatim>\<open>Map\<close> is an association list in insertion order: \<^verbatim>\<open>get\<close> is
  \<^const>\<open>map_of\<close>, \<^verbatim>\<open>set\<close> is \<^const>\<open>AList.update\<close> (it replaces the value of a
  key in place and appends a new key), \<^verbatim>\<open>size\<close> is the length. The store is the
  in-memory one (no \<^verbatim>\<open>DATABASE_URL\<close>); the SQL upsert of the other mode is the
  same update of one row per email.
\<close>

record BudgetRecord =
  rec_email :: string
  rec_budget :: BudgetFields
  rec_updatedAt :: string

record ServerState =
  tokenMap :: "(string \<times> string) list"
  memory :: "(string \<times> BudgetRecord) list"

definition save :: "BudgetRecord \<Rightarrow> ServerState \<Rightarrow> ServerState" where
  "save r srv = srv\<lparr>memory := AList.update (rec_email r) r (memory srv)\<rparr>"

definition latest :: "string \<Rightarrow> ServerState \<Rightarrow> BudgetRecord option" where
  "latest email srv = map_of (memory srv) email"

text \<open>The body and the one header of a request to \<^verbatim>\<open>POST /budget/sync\<close>.\<close>

record SyncBody =
  body_budget :: "BudgetFields option"
  body_email :: "string option"

record SyncRequest =
  req_body :: SyncBody
  req_authorization :: "string option"

datatype ResBody =
    ErrorJson string
  | SyncJson bool string
  | LatestJson "BudgetFields option" "string option"

record Response =
  res_status :: nat
  res_json :: ResBody

text \<open>
  \<^verbatim>\<open>s.replace(pat, rep)\<close> with a string pattern: the first occurrence of \<open>pat\<close> in
  \<open>s\<close> is replaced, wherever it stands.
\<close>

fun replace_first :: "string \<Rightarrow> string \<Rightarrow> string \<Rightarrow> string" where
  "replace_first pat rep [] = (if pat = [] then rep else [])"
| "replace_first pat rep (c # cs) =
     (if take (length pat) (c # cs) = pat then rep @ drop (length pat) (c # cs)
      else c # replace_first pat rep cs)"

text \<open>A string or an absent value is truthy when it is a non-empty string.\<close>

fun truthy_str :: "string option \<Rightarrow> bool" where
  "truthy_str None = False"
| "truthy_str (Some s) = (s \<noteq> [])"

text \<open>The handler's local constants \<^verbatim>\<open>token\<close>, \<^verbatim>\<open>tokenEmail\<close>, \<^verbatim>\<open>resolvedEmail\<close>.\<close>

definition sync_token :: "SyncRequest \<Rightarrow> string" where
  "sync_token req =
     (let authHeader = (case req_authorization req of Some h \<Rightarrow> h | None \<Rightarrow> [])
      in replace_first ''Bearer '' [] authHeader)"

definition sync_tokenEmail :: "SyncRequest \<Rightarrow> ServerState \<Rightarrow> string option" where
  "sync_tokenEmail req srv = map_of (tokenMap srv) (sync_token req)"

definition sync_resolvedEmail :: "SyncRequest \<Rightarrow> ServerState \<Rightarrow> string option" where
  "sync_resolvedEmail req srv =
     (case body_email (req_body req) of Some e \<Rightarrow> Some e | None \<Rightarrow> sync_tokenEmail req srv)"

definition sync_handler :: "string \<Rightarrow> SyncRequest \<Rightarrow> ServerState \<Rightarrow> Response \<times> ServerState" where
  "sync_handler now req srv =
     (let tokenEmail = sync_tokenEmail req srv;
          resolvedEmail = sync_resolvedEmail req srv
      in if \<not> truthy_str resolvedEmail
         then (\<lparr>res_status = 400, res_json = ErrorJson ''Email is required''\<rparr>, srv)
         else if length (tokenMap srv) \<noteq> 0 \<and> truthy_str tokenEmail \<and> tokenEmail \<noteq> resolvedEmail
         then (\<lparr>res_status = 403, res_json = ErrorJson ''Token does not match email''\<rparr>, srv)
         else (case body_budget (req_body req) of
                 None \<Rightarrow> (\<lparr>res_status = 400, res_json = ErrorJson ''Budget payload missing''\<rparr>, srv)
               | Some b \<Rightarrow>
                   (\<lparr>res_status = 200, res_json = SyncJson True now\<rparr>,
                    save \<lparr>rec_email = the resolvedEmail, rec_budget = b, rec_updatedAt = now\<rparr> srv)))"

text \<open>
  \<^verbatim>\<open>GET /budget/latest\<close>; \<open>demoEmail\<close> is the constant \<^verbatim>\<open>DEMO_EMAIL\<close>, read from
  the environment.
\<close>

definition latest_handler :: "string \<Rightarrow> string option \<Rightarrow> ServerState \<Rightarrow> Response" where
  "latest_handler demoEmail query_email srv =
     (let email = (case query_email of Some e \<Rightarrow> e | None \<Rightarrow> demoEmail)
      in case latest email srv of
           None \<Rightarrow> \<lparr>res_status = 200, res_json = LatestJson None None\<rparr>
         | Some r \<Rightarrow>
             \<lparr>res_status = 200,
              res_json = LatestJson (Some (rec_budget r)) (Some (rec_updatedAt r))\<rparr>)"

subsection \<open>The sync coordinator (the page component)\<close>

text \<open>
  The component's state next to the store: the message shown and the two loading flags.
  What \<^verbatim>\<open>fetch\<close> and \<^verbatim>\<open>res.json()\<close> give is the environment's answer: the promise
  rejects with a thrown value, or resolves to a response with a status whose body, once
  read, is either a thrown value (the body is not JSON, or it is \<^verbatim>\<open>null\<close> and reading
  a member of it throws) or the members the caller reads.
\<close>

record Page =
  store :: BudgetState
  message :: "string option"
  loadingSync :: bool
  loadingFetch :: bool

datatype thrown = ErrorObj string | OtherThrown

datatype 'd FetchOutcome = Rejected thrown | Responded nat "thrown + 'd"

record LatestData =
  data_budget :: "BudgetFields option"
  data_updatedAt :: "string option"

text \<open>\<^verbatim>\<open>err instanceof Error ? err.message : fallback\<close>\<close>

fun error_message :: "thrown \<Rightarrow> string \<Rightarrow> string" where
  "error_message (ErrorObj m) fallback = m"
| "error_message OtherThrown fallback = fallback"

text \<open>\<^verbatim>\<open>res.ok\<close>: the status is in the range 200 to 299.\<close>

definition res_ok :: "nat \<Rightarrow> bool" where
  "res_ok st = (200 \<le> st \<and> st \<le> 299)"

text \<open>The request \<^verbatim>\<open>syncToServer\<close> sends, from the store's values.\<close>

definition sync_request :: "BudgetState \<Rightarrow> SyncRequest" where
  "sync_request state =
     \<lparr>req_body = \<lparr>body_budget = Some (budget state), body_email = Some (userEmail state)\<rparr>,
      req_authorization =
        (if truthy_str (authToken state) then Some (''Bearer '' @ the (authToken state))
         else None)\<rparr>"

text \<open>
  \<^verbatim>\<open>syncToServer\<close> suspends once the request is sent, and the page is rendered
  and can be used while it waits. \<open>sync_begin\<close> is what runs before the request is
  awaited; \<open>sync_finish\<close> is what runs once the outcome is known (the \<^verbatim>\<open>try\<close>
  body after the \<^verbatim>\<open>await\<close>, the \<^verbatim>\<open>catch\<close> and the \<^verbatim>\<open>finally\<close>); the
  outcome's data is \<^verbatim>\<open>data.timestamp\<close>. \<open>syncToServer\<close> gives both pages of
  one call: the page while the request is awaited, and the page when the call has
  returned.
\<close>

definition sync_begin :: "Page \<Rightarrow> Page" where
  "sync_begin p =
     p\<lparr>loadingSync := True, message := None, store := setSyncStatus SyncPending (store p)\<rparr>"

definition sync_catch :: "thrown \<Rightarrow> Page \<Rightarrow> Page" where
  "sync_catch err p =
     p\<lparr>message := Some (error_message err
                          (''Could not sync '' @ em_dash @ '' data is safe locally.'')),
       store := setSyncStatus LocalOnly (store p)\<rparr>"

definition sync_finish :: "string option FetchOutcome \<Rightarrow> string \<Rightarrow> Page \<Rightarrow> Page" where
  "sync_finish outcome now p =
     (let p' =
        (case outcome of
           Rejected err \<Rightarrow> sync_catch err p
         | Responded st body \<Rightarrow>
             if \<not> res_ok st then sync_catch (ErrorObj ''Sync failed'') p
             else (case body of
                     Inl err \<Rightarrow> sync_catch err p
                   | Inr ts \<Rightarrow>
                       p\<lparr>store := markSynced (case ts of Some t \<Rightarrow> t | None \<Rightarrow> now) (store p),
                         message := Some ''Synced to server successfully.''\<rparr>))
      in p'\<lparr>loadingSync := False\<rparr>)"

definition syncToServer ::
  "string option FetchOutcome \<Rightarrow> string \<Rightarrow> Page \<Rightarrow> Page \<times> Page" where
  "syncToServer outcome now p =
     (let awaiting = sync_begin p in (awaiting, sync_finish outcome now awaiting))"

definition no_server_copy_message :: string where
  "no_server_copy_message = ''No server copy found '' @ em_dash @ '' still local-first.''"

definition fetch_catch :: "thrown \<Rightarrow> Page \<Rightarrow> Page" where
  "fetch_catch err p =
     p\<lparr>message := Some (error_message err
                          (''Could not fetch server copy '' @ em_dash @ '' working offline.''))\<rparr>"

definition fetchLatest :: "LatestData FetchOutcome \<Rightarrow> string \<Rightarrow> Page \<Rightarrow> Page" where
  "fetchLatest outcome now p =
     (let p0 = p\<lparr>loadingFetch := True, message := None\<rparr>;
          p' =
        (case outcome of
           Rejected err \<Rightarrow> fetch_catch err p0
         | Responded st body \<Rightarrow>
             (case body of
                Inl err \<Rightarrow> fetch_catch err p0
              | Inr d \<Rightarrow>
                  (case data_budget d of
                     Some b \<Rightarrow>
                       p0\<lparr>store := hydrateFromServer b (data_updatedAt d) now (store p0),
                          message := Some ''Pulled latest server version.''\<rparr>
                   | None \<Rightarrow> p0\<lparr>message := Some no_server_copy_message\<rparr>)))
      in p'\<lparr>loadingFetch := False\<rparr>)"

text \<open>
  The JSON a handler sends, as the client reads it: \<^verbatim>\<open>data.timestamp\<close> of a sync
  response (absent in an error body), \<^verbatim>\<open>data.budget\<close> and \<^verbatim>\<open>data.updatedAt\<close> of
  a latest response.
\<close>

definition sync_outcome_of :: "Response \<Rightarrow> string option FetchOutcome" where
  "sync_outcome_of r =
     Responded (res_status r)
       (Inr (case res_json r of SyncJson ok ts \<Rightarrow> Some ts | _ \<Rightarrow> None))"

definition latest_outcome_of :: "Response \<Rightarrow> LatestData FetchOutcome" where
  "latest_outcome_of r =
     Responded (res_status r)
       (Inr (case res_json r of
               LatestJson b u \<Rightarrow> \<lparr>data_budget = b, data_updatedAt = u\<rparr>
             | _ \<Rightarrow> \<lparr>data_budget = None, data_updatedAt = None\<rparr>))"

text \<open>Calling \<^verbatim>\<open>addSnapshot\<close> once for each pair of a fresh id and a time, in order.\<close>

fun addSnapshots :: "(string \<times> string) list \<Rightarrow> BudgetState \<Rightarrow> BudgetState" where
  "addSnapshots [] state = state"
| "addSnapshots ((uuid, now) # rest) state = addSnapshots rest (addSnapshot uuid now state)"

definition snapshot_of :: "BudgetFields \<Rightarrow> string \<times> string \<Rightarrow> BudgetSnapshot" where
  "snapshot_of b p = \<lparr>snap_id = fst p, snap_timestamp = snd p, snap_budget = b\<rparr>"

text \<open>
  A token as \<^verbatim>\<open>POST /auth/login\<close> issues it: the base64 text of
  \<^verbatim>\<open>hire-me@anshumat.org:1735689600000\<close>, the demo email and the time of the login.
\<close>

definition demo_token :: string where
  "demo_token = ''aGlyZS1tZUBhbnNodW1hdC5vcmc6MTczNTY4OTYwMDAwMA==''"

text \<open>Twenty-five calls with pairwise different ids, for the evaluation of the history.\<close>

definition sample_calls :: "(string \<times> string) list" where
  "sample_calls = map (\<lambda>n. (replicate n (CHR ''u''), replicate n (CHR ''t''))) [1..<26]"

section \<open>Properties\<close>

subsection \<open>Derived metrics\<close>

lemma warnings_distinct:
  "food_warning \<noteq> overspend_warning" "food_warning \<noteq> burn_rate_warning"
  "subscriptions_warning \<noteq> overspend_warning" "subscriptions_warning \<noteq> burn_rate_warning"
  "overspend_warning \<noteq> burn_rate_warning" "food_warning \<noteq> subscriptions_warning"
  by (simp_all add: food_warning_def subscriptions_warning_def overspend_warning_def
      burn_rate_warning_def)

text \<open>
  C1, as stated, fails: the guard of \<^verbatim>\<open>getTotals\<close> is the truthiness of income, so a
  negative income is divided by. With income \<open>-1\<close> and monthly bills \<open>1\<close> the burn rate
  is \<open>-1\<close>, where the claim (income not above 0) says 0.
\<close>

theorem getTotals_burnRate_counterexample:
  "burnRate (getTotals \<lparr>income = - 1, monthlyBills = 1, food = 0, transport = 0,
       subscriptions = 0, miscellaneous = 0\<rparr>) = - 1 \<and>
   spec_burnRate \<lparr>income = - 1, monthlyBills = 1, food = 0, transport = 0,
       subscriptions = 0, miscellaneous = 0\<rparr> = 0"
  by (simp add: getTotals_def spec_burnRate_def truthy_def)

text \<open>
  C1, amended: for every budget, expenses is the sum of the five non-income fields, and
  the burn rate is expenses over income when income is not zero (positive or negative)
  and 0 when income is zero; so it is the claimed value for every budget whose income
  is not negative.
\<close>

theorem getTotals_burnRate:
  "expenses (getTotals b) =
     monthlyBills b + food b + transport b + subscriptions b + miscellaneous b \<and>
   burnRate (getTotals b) = (if income b = 0 then 0 else expenses (getTotals b) / income b) \<and>
   (0 \<le> income b \<longrightarrow> burnRate (getTotals b) = spec_burnRate b)"
proof -
  let ?e = "monthlyBills b + food b + transport b + subscriptions b + miscellaneous b"
  have e: "expenses (getTotals b) = ?e"
    by (simp add: getTotals_def Let_def)
  have r: "burnRate (getTotals b) = (if income b = 0 then 0 else ?e / income b)"
    by (simp add: getTotals_def truthy_def Let_def)
  have s: "burnRate (getTotals b) = spec_burnRate b" if "0 \<le> income b"
  proof (cases "income b = 0")
    case True
    then show ?thesis by (simp add: r spec_burnRate_def)
  next
    case False
    with that have "0 < income b" by simp
    then show ?thesis by (simp add: r spec_burnRate_def)
  qed
  from e r s show ?thesis by simp
qed

theorem getTotals_burnRate_witness:
  "burnRate (getTotals \<lparr>income = 10000, monthlyBills = 6000, food = 3000, transport = 1000,
       subscriptions = 1500, miscellaneous = 500\<rparr>) = 6 / 5 \<and>
   burnRate (getTotals \<lparr>income = 0, monthlyBills = 6000, food = 3000, transport = 1000,
       subscriptions = 1500, miscellaneous = 500\<rparr>) = 0 \<and>
   spec_burnRate \<lparr>income = 10000, monthlyBills = 6000, food = 3000, transport = 1000,
       subscriptions = 1500, miscellaneous = 500\<rparr> = 6 / 5"
  using getTotals_burnRate [of "\<lparr>income = 10000, monthlyBills = 6000, food = 3000,
       transport = 1000, subscriptions = 1500, miscellaneous = 500\<rparr>"]
    getTotals_burnRate [of "\<lparr>income = 0, monthlyBills = 6000, food = 3000,
       transport = 1000, subscriptions = 1500, miscellaneous = 500\<rparr>"]
  by simp

text \<open>
  C8: the list of warnings holds the overspend warning exactly when savings are negative
  and the burn-rate warning exactly when the burn rate is above 1, whatever the two
  income-ratio warnings do: each of the four combinations of the food and the
  subscriptions warning occurs with these two present and with these two absent.
\<close>

theorem getWarnings_overspend_burn_rate:
  "(overspend_warning \<in> set (getWarnings b)) = (savings (getTotals b) < 0) \<and>
   (burn_rate_warning \<in> set (getWarnings b)) = (burnRate (getTotals b) > 1) \<and>
   (\<forall>f s x. \<exists>b'.
      (food_warning \<in> set (getWarnings b')) = f \<and>
      (subscriptions_warning \<in> set (getWarnings b')) = s \<and>
      (overspend_warning \<in> set (getWarnings b')) = x \<and>
      (burn_rate_warning \<in> set (getWarnings b')) = x)"
proof -
  have iffs: "(overspend_warning \<in> set (getWarnings c)) = (savings (getTotals c) < 0) \<and>
     (burn_rate_warning \<in> set (getWarnings c)) = (burnRate (getTotals c) > 1)" for c
    using warnings_distinct by (simp add: getWarnings_def Let_def)
  have ex: "\<exists>b'.
      (food_warning \<in> set (getWarnings b')) = f \<and>
      (subscriptions_warning \<in> set (getWarnings b')) = s \<and>
      (overspend_warning \<in> set (getWarnings b')) = x \<and>
      (burn_rate_warning \<in> set (getWarnings b')) = x" for f s x
  proof -
    let ?b = "\<lparr>income = 100, monthlyBills = (if x then 101 else 0),
        food = (if f then 41 else 0), transport = 0,
        subscriptions = (if s then 31 else 0), miscellaneous = 0\<rparr>"
    have "(food_warning \<in> set (getWarnings ?b)) = f"
      using warnings_distinct by (simp add: getWarnings_def Let_def)
    moreover have "(subscriptions_warning \<in> set (getWarnings ?b)) = s"
      using warnings_distinct by (simp add: getWarnings_def Let_def)
    moreover have "(overspend_warning \<in> set (getWarnings ?b)) = x"
      by (simp add: iffs getTotals_def Let_def)
    moreover have "(burn_rate_warning \<in> set (getWarnings ?b)) = x"
      by (simp add: iffs getTotals_def Let_def truthy_def)
    ultimately show ?thesis by blast
  qed
  show ?thesis using iffs ex by blast
qed

theorem getWarnings_overspend_burn_rate_witness:
  "overspend_warning \<in> set (getWarnings \<lparr>income = 10000, monthlyBills = 6000, food = 3000,
       transport = 1000, subscriptions = 1500, miscellaneous = 500\<rparr>) \<and>
   burn_rate_warning \<in> set (getWarnings \<lparr>income = 10000, monthlyBills = 6000, food = 3000,
       transport = 1000, subscriptions = 1500, miscellaneous = 500\<rparr>) \<and>
   overspend_warning \<notin> set (getWarnings \<lparr>income = 50000, monthlyBills = 0, food = 25000,
       transport = 0, subscriptions = 0, miscellaneous = 0\<rparr>) \<and>
   burn_rate_warning \<notin> set (getWarnings \<lparr>income = 50000, monthlyBills = 0, food = 25000,
       transport = 0, subscriptions = 0, miscellaneous = 0\<rparr>)"
  using getWarnings_overspend_burn_rate [of "\<lparr>income = 10000, monthlyBills = 6000,
       food = 3000, transport = 1000, subscriptions = 1500, miscellaneous = 500\<rparr>"]
    getWarnings_overspend_burn_rate [of "\<lparr>income = 50000, monthlyBills = 0,
       food = 25000, transport = 0, subscriptions = 0, miscellaneous = 0\<rparr>"]
  by (simp add: getTotals_def truthy_def)

text \<open>
  C9: with income 0 the list of warnings holds neither the food nor the subscriptions
  warning, however large those fields are; the overspend and the burn-rate warning are
  decided by their own tests on that budget.
\<close>

theorem getWarnings_zero_income:
  "income b = 0 \<Longrightarrow>
     food_warning \<notin> set (getWarnings b) \<and>
     subscriptions_warning \<notin> set (getWarnings b) \<and>
     (overspend_warning \<in> set (getWarnings b)) = (savings (getTotals b) < 0) \<and>
     (burn_rate_warning \<in> set (getWarnings b)) = (burnRate (getTotals b) > 1)"
  using warnings_distinct by (simp add: getWarnings_def Let_def)

theorem getWarnings_zero_income_witness:
  "income \<lparr>income = 0, monthlyBills = 0, food = 900000, transport = 0,
       subscriptions = 700000, miscellaneous = 0\<rparr> = 0 \<and>
   food_warning \<notin> set (getWarnings \<lparr>income = 0, monthlyBills = 0, food = 900000,
       transport = 0, subscriptions = 700000, miscellaneous = 0\<rparr>) \<and>
   subscriptions_warning \<notin> set (getWarnings \<lparr>income = 0, monthlyBills = 0, food = 900000,
       transport = 0, subscriptions = 700000, miscellaneous = 0\<rparr>) \<and>
   overspend_warning \<in> set (getWarnings \<lparr>income = 0, monthlyBills = 0, food = 900000,
       transport = 0, subscriptions = 700000, miscellaneous = 0\<rparr>) \<and>
   burn_rate_warning \<notin> set (getWarnings \<lparr>income = 0, monthlyBills = 0, food = 900000,
       transport = 0, subscriptions = 700000, miscellaneous = 0\<rparr>)"
  using getWarnings_zero_income [of "\<lparr>income = 0, monthlyBills = 0, food = 900000,
       transport = 0, subscriptions = 700000, miscellaneous = 0\<rparr>"]
  by (simp add: getTotals_def truthy_def)

subsection \<open>Store actions\<close>

text \<open>
  C3: \<^verbatim>\<open>updateField\<close> moves a synced state to sync-pending and leaves the status
  of a local-only or sync-pending state as it is; of the six budget fields exactly the
  named one changes, to the given value; \<^verbatim>\<open>lastUpdatedAt\<close> becomes the time of
  the call.
\<close>

theorem updateField_effect:
  "(syncStatus s = Synced \<longrightarrow> syncStatus (updateField f v now s) = SyncPending) \<and>
   (syncStatus s = LocalOnly \<longrightarrow> syncStatus (updateField f v now s) = LocalOnly) \<and>
   (syncStatus s = SyncPending \<longrightarrow> syncStatus (updateField f v now s) = SyncPending) \<and>
   (\<forall>g. get_field g (budget (updateField f v now s)) =
      (if g = f then v else get_field g (budget s))) \<and>
   lastUpdatedAt (updateField f v now s) = Some now"
proof -
  have "get_field g (set_field f v b) = (if g = f then v else get_field g b)" for g b
    by (cases f; cases g) simp_all
  then show ?thesis by (simp add: updateField_def)
qed

theorem updateField_effect_witness:
  "syncStatus (markSynced ''t0'' initialState) = Synced \<and>
   syncStatus (updateField Food 250 ''t1'' (markSynced ''t0'' initialState)) = SyncPending \<and>
   syncStatus initialState = LocalOnly \<and>
   syncStatus (updateField Food 250 ''t1'' initialState) = LocalOnly \<and>
   syncStatus (setSyncStatus SyncPending initialState) = SyncPending \<and>
   syncStatus (updateField Food 250 ''t1'' (setSyncStatus SyncPending initialState)) = SyncPending \<and>
   food (budget (updateField Food 250 ''t1'' initialState)) = 250 \<and>
   income (budget (updateField Food 250 ''t1'' initialState)) = 0 \<and>
   lastUpdatedAt (updateField Food 250 ''t1'' initialState) = Some ''t1''"
proof -
  have a: "syncStatus (markSynced ''t0'' initialState) = Synced"
    by (simp add: markSynced_def)
  have b: "syncStatus initialState = LocalOnly"
    by (simp add: initialState_def)
  have c: "syncStatus (setSyncStatus SyncPending initialState) = SyncPending"
    by (simp add: setSyncStatus_def)
  have d: "budget initialState = initialBudget"
    by (simp add: initialState_def)
  from updateField_effect [of "markSynced ''t0'' initialState" Food 250 "''t1''"]
    updateField_effect [of initialState Food 250 "''t1''"]
    updateField_effect [of "setSyncStatus SyncPending initialState" Food 250 "''t1''"]
  have "syncStatus (updateField Food 250 ''t1'' (markSynced ''t0'' initialState)) = SyncPending"
    "syncStatus (updateField Food 250 ''t1'' initialState) = LocalOnly"
    "syncStatus (updateField Food 250 ''t1'' (setSyncStatus SyncPending initialState)) = SyncPending"
    "get_field Food (budget (updateField Food 250 ''t1'' initialState)) = 250"
    "get_field Income (budget (updateField Food 250 ''t1'' initialState)) = get_field Income (budget initialState)"
    "lastUpdatedAt (updateField Food 250 ''t1'' initialState) = Some ''t1''"
    using a b c by simp_all
  with a b c d show ?thesis by (simp add: initialBudget_def)
qed

lemma take_append_take: "take n (xs @ take n ys) = take n (xs @ ys)"
  by (simp add: min_def)

lemma addSnapshot_budget: "budget (addSnapshot u t s) = budget s"
  by (simp add: addSnapshot_def Let_def)

lemma addSnapshot_history:
  "history (addSnapshot u t s) = take 20 (snapshot_of (budget s) (u, t) # history s)"
  by (simp add: addSnapshot_def snapshot_of_def Let_def)

lemma addSnapshots_history:
  "xs \<noteq> [] \<Longrightarrow>
   history (addSnapshots xs s) = take 20 (rev (map (snapshot_of (budget s)) xs) @ history s)"
proof (induction xs s rule: addSnapshots.induct)
  case (1 state)
  then show ?case by simp
next
  case (2 uuid now rest state)
  show ?case
  proof (cases "rest = []")
    case True
    then show ?thesis by (simp add: addSnapshot_history)
  next
    case False
    with 2 have "history (addSnapshots rest (addSnapshot uuid now state)) =
       take 20 (rev (map (snapshot_of (budget state)) rest) @
         take 20 (snapshot_of (budget state) (uuid, now) # history state))"
      by (simp add: addSnapshot_budget addSnapshot_history)
    also have "\<dots> = take 20 (rev (map (snapshot_of (budget state)) rest) @
         snapshot_of (budget state) (uuid, now) # history state)"
      by (rule take_append_take)
    finally show ?thesis by simp
  qed
qed

lemma addSnapshots_25:
  assumes "length xs = 25"
  shows "history (addSnapshots xs s) = map (snapshot_of (budget s)) (rev (drop 5 xs))"
proof -
  from assms have ne: "xs \<noteq> []" by auto
  have "history (addSnapshots xs s) = take 20 (rev (map (snapshot_of (budget s)) xs) @ history s)"
    using ne by (rule addSnapshots_history)
  also have "\<dots> = take 20 (rev (map (snapshot_of (budget s)) xs))"
    using assms by simp
  also have "\<dots> = rev (drop 5 (map (snapshot_of (budget s)) xs))"
    using assms by (simp add: take_rev)
  finally show ?thesis by (simp add: rev_map drop_map)
qed

text \<open>
  C5: after 25 calls of \<^verbatim>\<open>addSnapshot\<close> from any state the history is exactly the
  snapshots of the last 20 calls, the latest first: the first 5 and all that the
  history held before are gone. Ids that are pairwise different when drawn stay so in
  the history. Each single call puts a snapshot of the current budget, with the id
  and the time drawn, in front and keeps the first 20; a later edit of the budget
  leaves the stored snapshots as they are.
\<close>

theorem addSnapshot_25_times:
  assumes "length xs = 25"
  shows "history (addSnapshots xs s) = map (snapshot_of (budget s)) (rev (drop 5 xs)) \<and>
    length (history (addSnapshots xs s)) = 20 \<and>
    (distinct (map fst xs) \<longrightarrow> distinct (map snap_id (history (addSnapshots xs s)))) \<and>
    (\<forall>uuid now st.
       history (addSnapshot uuid now st) =
         take 20 (\<lparr>snap_id = uuid, snap_timestamp = now, snap_budget = budget st\<rparr> # history st) \<and>
       length (history (addSnapshot uuid now st)) \<le> 20) \<and>
    (\<forall>f v t st. history (updateField f v t st) = history st)"
proof -
  have h: "history (addSnapshots xs s) = map (snapshot_of (budget s)) (rev (drop 5 xs))"
    using assms by (rule addSnapshots_25)
  have l: "length (history (addSnapshots xs s)) = 20"
    using assms by (simp add: h)
  have d: "distinct (map snap_id (history (addSnapshots xs s)))" if "distinct (map fst xs)"
  proof -
    have "map snap_id (history (addSnapshots xs s)) = rev (drop 5 (map fst xs))"
      by (simp add: h snapshot_of_def comp_def rev_map drop_map)
    with that show ?thesis by simp
  qed
  have step: "history (addSnapshot uuid now st) =
         take 20 (\<lparr>snap_id = uuid, snap_timestamp = now, snap_budget = budget st\<rparr> # history st) \<and>
       length (history (addSnapshot uuid now st)) \<le> 20" for uuid now st
    by (simp add: addSnapshot_def Let_def)
  have edit: "history (updateField f v t st) = history st" for f v t st
    by (simp add: updateField_def)
  show ?thesis using h l d step edit by blast
qed

theorem addSnapshot_25_times_witness:
  "length sample_calls = 25 \<and>
   history (addSnapshots sample_calls initialState) =
     map (snapshot_of initialBudget) (rev (drop 5 sample_calls)) \<and>
   length (history (addSnapshots sample_calls initialState)) = 20 \<and>
   distinct (map snap_id (history (addSnapshots sample_calls initialState))) \<and>
   snap_id (hd (history (addSnapshots sample_calls initialState))) = replicate 25 (CHR ''u'') \<and>
   snap_id (last (history (addSnapshots sample_calls initialState))) = replicate 6 (CHR ''u'')"
proof -
  have len: "length sample_calls = 25"
    by (simp add: sample_calls_def)
  have dist: "distinct (map fst sample_calls)"
    by (simp add: sample_calls_def comp_def distinct_map inj_on_def)
  have b: "budget initialState = initialBudget"
    by (simp add: initialState_def)
  have r: "rev (drop 5 sample_calls) =
      map (\<lambda>n. (replicate n (CHR ''u''), replicate n (CHR ''t''))) (rev [6..<26])"
    by (simp add: sample_calls_def drop_map rev_map)
  have h: "hd (rev [6..<26::nat]) = 25" "rev [6..<26::nat] \<noteq> []" "last (rev [6..<26::nat]) = 6"
    by (simp_all add: hd_rev last_rev upt_rec)
  from addSnapshot_25_times [OF len, of initialState] len dist b show ?thesis
    by (simp add: r h hd_map last_map snapshot_of_def)
qed

text \<open>
  C10: \<^verbatim>\<open>addSnapshot\<close> changes the history and nothing else: the budget, the
  sync status (a synced state stays synced), both timestamps, the email and the token
  are those of the state before.
\<close>

theorem addSnapshot_frame:
  "budget (addSnapshot uuid now s) = budget s \<and>
   syncStatus (addSnapshot uuid now s) = syncStatus s \<and>
   lastUpdatedAt (addSnapshot uuid now s) = lastUpdatedAt s \<and>
   lastSyncedAt (addSnapshot uuid now s) = lastSyncedAt s \<and>
   userEmail (addSnapshot uuid now s) = userEmail s \<and>
   authToken (addSnapshot uuid now s) = authToken s \<and>
   s\<lparr>history := history (addSnapshot uuid now s)\<rparr> = addSnapshot uuid now s"
  by (simp add: addSnapshot_def Let_def)

theorem addSnapshot_frame_witness:
  "syncStatus (markSynced ''2025-01-01T00:00:00.000Z'' initialState) = Synced \<and>
   syncStatus (addSnapshot ''id-1'' ''2025-01-02T00:00:00.000Z''
     (markSynced ''2025-01-01T00:00:00.000Z'' initialState)) = Synced \<and>
   budget (addSnapshot ''id-1'' ''2025-01-02T00:00:00.000Z''
     (markSynced ''2025-01-01T00:00:00.000Z'' initialState)) = initialBudget \<and>
   lastSyncedAt (addSnapshot ''id-1'' ''2025-01-02T00:00:00.000Z''
     (markSynced ''2025-01-01T00:00:00.000Z'' initialState)) = Some ''2025-01-01T00:00:00.000Z''"
  using addSnapshot_frame [of "''id-1''" "''2025-01-02T00:00:00.000Z''"
     "markSynced ''2025-01-01T00:00:00.000Z'' initialState"]
  by (simp add: markSynced_def initialState_def)

text \<open>
  C6: \<^verbatim>\<open>restoreSnapshot\<close> with an id that no snapshot of the history has returns
  the state as it was; with an id that is in the history, the budget becomes the
  stored budget of the first snapshot with that id, the status local-only and
  \<^verbatim>\<open>lastUpdatedAt\<close> the time of the call.
\<close>

theorem restoreSnapshot_effect:
  "(i \<notin> snap_id ` set (history s) \<longrightarrow> restoreSnapshot i now s = s) \<and>
   (i \<in> snap_id ` set (history s) \<longrightarrow>
      (\<exists>snap. find (\<lambda>h. snap_id h = i) (history s) = Some snap \<and>
         snap \<in> set (history s) \<and> snap_id snap = i \<and>
         budget (restoreSnapshot i now s) = snap_budget snap) \<and>
      syncStatus (restoreSnapshot i now s) = LocalOnly \<and>
      lastUpdatedAt (restoreSnapshot i now s) = Some now)"
proof (cases "find (\<lambda>h. snap_id h = i) (history s)")
  case None
  then have "i \<notin> snap_id ` set (history s)" by (auto simp: find_None_iff)
  with None show ?thesis by (simp add: restoreSnapshot_def)
next
  case (Some snap)
  then have "snap \<in> set (history s) \<and> snap_id snap = i"
    by (auto simp: find_Some_iff)
  with Some show ?thesis by (auto simp: restoreSnapshot_def)
qed

theorem restoreSnapshot_effect_witness:
  "''id-9'' \<notin> snap_id ` set (history
      (updateField Income 70 ''t2''
        (addSnapshot ''id-1'' ''t1'' (updateField Income 50000 ''t0'' initialState)))) \<and>
   restoreSnapshot ''id-9'' ''t3''
      (updateField Income 70 ''t2''
        (addSnapshot ''id-1'' ''t1'' (updateField Income 50000 ''t0'' initialState))) =
      updateField Income 70 ''t2''
        (addSnapshot ''id-1'' ''t1'' (updateField Income 50000 ''t0'' initialState)) \<and>
   ''id-1'' \<in> snap_id ` set (history
      (updateField Income 70 ''t2''
        (addSnapshot ''id-1'' ''t1'' (updateField Income 50000 ''t0'' initialState)))) \<and>
   income (budget (restoreSnapshot ''id-1'' ''t3''
      (updateField Income 70 ''t2''
        (addSnapshot ''id-1'' ''t1'' (updateField Income 50000 ''t0'' initialState))))) = 50000 \<and>
   syncStatus (restoreSnapshot ''id-1'' ''t3''
      (updateField Income 70 ''t2''
        (addSnapshot ''id-1'' ''t1'' (updateField Income 50000 ''t0'' initialState)))) = LocalOnly \<and>
   lastUpdatedAt (restoreSnapshot ''id-1'' ''t3''
      (updateField Income 70 ''t2''
        (addSnapshot ''id-1'' ''t1'' (updateField Income 50000 ''t0'' initialState)))) = Some ''t3''"
proof -
  let ?s = "updateField Income 70 ''t2''
        (addSnapshot ''id-1'' ''t1'' (updateField Income 50000 ''t0'' initialState))"
  have h: "history ?s = [\<lparr>snap_id = ''id-1'', snap_timestamp = ''t1'',
      snap_budget = initialBudget\<lparr>income := 50000\<rparr>\<rparr>]"
    by (simp add: updateField_def addSnapshot_def initialState_def Let_def)
  from restoreSnapshot_effect [of "''id-9''" ?s "''t3''"]
    restoreSnapshot_effect [of "''id-1''" ?s "''t3''"]
  show ?thesis by (simp add: h)
qed

subsection \<open>The sync coordinator\<close>




text \<open>
  C7: when the response to \<^verbatim>\<open>fetchLatest\<close> has no budget, which is what the
  latest handler answers for an email without a record, the store is unchanged and the
  message is the one of no server copy; when it has a budget, the store is hydrated
  from it: the budget is the server's and the status synced; when the request is
  rejected or its body cannot be read, the store is unchanged.
\<close>

theorem fetchLatest_outcomes:
  "((outcome = Responded st (Inr d) \<and> data_budget d = None) \<longrightarrow>
      store (fetchLatest outcome now p) = store p \<and>
      message (fetchLatest outcome now p) = Some no_server_copy_message) \<and>
   (latest email srv = None \<longrightarrow>
      latest_outcome_of (latest_handler demoEmail (Some email) srv) =
        Responded 200 (Inr \<lparr>data_budget = None, data_updatedAt = None\<rparr>)) \<and>
   ((outcome = Responded st (Inr d) \<and> data_budget d = Some b) \<longrightarrow>
      hydrateFromServer b (data_updatedAt d) now (store p) = store (fetchLatest outcome now p) \<and>
      budget (store (fetchLatest outcome now p)) = b \<and>
      syncStatus (store (fetchLatest outcome now p)) = Synced) \<and>
   ((outcome = Rejected err \<or> outcome = Responded st (Inl err)) \<longrightarrow>
      store (fetchLatest outcome now p) = store p)"
  by (auto simp: fetchLatest_def fetch_catch_def hydrateFromServer_def latest_outcome_of_def
      latest_handler_def Let_def)

theorem fetchLatest_outcomes_witness:
  "latest ''hire-me@anshumat.org'' \<lparr>tokenMap = [], memory = []\<rparr> = None \<and>
   latest_outcome_of (latest_handler ''hire-me@anshumat.org'' (Some ''hire-me@anshumat.org'')
         \<lparr>tokenMap = [], memory = []\<rparr>) =
     Responded 200 (Inr \<lparr>data_budget = None, data_updatedAt = None\<rparr>) \<and>
   store (fetchLatest
      (Responded 200 (Inr \<lparr>data_budget = None, data_updatedAt = None\<rparr>)) ''t1''
      \<lparr>store = updateField Income 50000 ''t0'' initialState, message = None,
       loadingSync = False, loadingFetch = False\<rparr>) =
     updateField Income 50000 ''t0'' initialState \<and>
   message (fetchLatest
      (Responded 200 (Inr \<lparr>data_budget = None, data_updatedAt = None\<rparr>)) ''t1''
      \<lparr>store = updateField Income 50000 ''t0'' initialState, message = None,
       loadingSync = False, loadingFetch = False\<rparr>) = Some no_server_copy_message \<and>
   budget (store (fetchLatest
      (Responded 200 (Inr \<lparr>data_budget = Some initialBudget, data_updatedAt = Some ''t9''\<rparr>)) ''t1''
      \<lparr>store = updateField Income 50000 ''t0'' initialState, message = None,
       loadingSync = False, loadingFetch = False\<rparr>)) = initialBudget \<and>
   syncStatus (store (fetchLatest
      (Responded 200 (Inr \<lparr>data_budget = Some initialBudget, data_updatedAt = Some ''t9''\<rparr>)) ''t1''
      \<lparr>store = updateField Income 50000 ''t0'' initialState, message = None,
       loadingSync = False, loadingFetch = False\<rparr>)) = Synced \<and>
   store (fetchLatest (Rejected (ErrorObj ''Failed to fetch'')) ''t1''
      \<lparr>store = updateField Income 50000 ''t0'' initialState, message = None,
       loadingSync = False, loadingFetch = False\<rparr>) =
     updateField Income 50000 ''t0'' initialState"
proof -
  let ?srv = "\<lparr>tokenMap = [], memory = []\<rparr>"
  let ?p = "\<lparr>store = updateField Income 50000 ''t0'' initialState, message = None,
       loadingSync = False, loadingFetch = False\<rparr>"
  let ?none = "\<lparr>data_budget = None, data_updatedAt = None\<rparr>"
  let ?some = "\<lparr>data_budget = Some initialBudget, data_updatedAt = Some ''t9''\<rparr>"
  let ?e = "ErrorObj ''Failed to fetch''"
  let ?m = "''hire-me@anshumat.org''"
  have l: "latest ?m ?srv = None"
    by (simp add: latest_def)
  from fetchLatest_outcomes [where outcome = "Responded 200 (Inr ?none)" and st = 200
      and d = ?none and now = "''t1''" and p = ?p and email = ?m and srv = ?srv
      and demoEmail = ?m and b = initialBudget and err = ?e] l
  have a: "latest_outcome_of (latest_handler ?m (Some ?m) ?srv) = Responded 200 (Inr ?none)"
    "store (fetchLatest (Responded 200 (Inr ?none)) ''t1'' ?p) =
      updateField Income 50000 ''t0'' initialState"
    "message (fetchLatest (Responded 200 (Inr ?none)) ''t1'' ?p) = Some no_server_copy_message"
    by simp_all
  from fetchLatest_outcomes [where outcome = "Responded 200 (Inr ?some)" and st = 200
      and d = ?some and now = "''t1''" and p = ?p and email = ?m and srv = ?srv
      and demoEmail = ?m and b = initialBudget and err = ?e]
  have b: "budget (store (fetchLatest (Responded 200 (Inr ?some)) ''t1'' ?p)) = initialBudget"
    "syncStatus (store (fetchLatest (Responded 200 (Inr ?some)) ''t1'' ?p)) = Synced"
    by simp_all
  from fetchLatest_outcomes [where outcome = "Rejected ?e" and st = 200
      and d = ?some and now = "''t1''" and p = ?p and email = ?m and srv = ?srv
      and demoEmail = ?m and b = initialBudget and err = ?e]
  have c: "store (fetchLatest (Rejected ?e) ''t1'' ?p) =
      updateField Income 50000 ''t0'' initialState"
    by simp
  from l a b c show ?thesis by simp
qed

subsection \<open>The sync endpoint\<close>

lemma replace_first_prefix: "replace_first pat rep (pat @ s) = rep @ s"
proof (cases "pat @ s")
  case Nil
  then show ?thesis by simp
next
  case (Cons c cs)
  have "take (length pat) (pat @ s) = pat" "drop (length pat) (pat @ s) = s"
    by simp_all
  with Cons have "take (length pat) (c # cs) = pat" "drop (length pat) (c # cs) = s"
    by simp_all
  then have "replace_first pat rep (c # cs) = rep @ s"
    by (simp only: replace_first.simps simp_thms if_True)
  with Cons show ?thesis by simp
qed

text \<open>
  C2, as stated, fails: a body without email is not answered 400 when the token of the
  request is mapped to an email; the handler falls back on that email and, the budget
  being there, saves and answers 200.
\<close>

theorem sync_handler_counterexample:
  "body_email (req_body \<lparr>req_body = \<lparr>body_budget = Some initialBudget, body_email = None\<rparr>,
                  req_authorization = Some (''Bearer '' @ demo_token)\<rparr>) = None \<and>
   res_status (fst (sync_handler ''2025-01-01T00:00:00.000Z''
      \<lparr>req_body = \<lparr>body_budget = Some initialBudget, body_email = None\<rparr>,
       req_authorization = Some (''Bearer '' @ demo_token)\<rparr>
      \<lparr>tokenMap = [(demo_token, ''hire-me@anshumat.org'')], memory = []\<rparr>)) = 200"
  by (simp add: sync_handler_def sync_resolvedEmail_def sync_tokenEmail_def sync_token_def
      demo_token_def Let_def)

text \<open>
  C2, amended: the resolved email is the body's email or, when the body has none, the
  email the token of the request is mapped to. The handler answers 400 when the
  resolved email is absent or empty, or when there is no mismatch and the budget is
  missing; 403 when the resolved email is non-empty and the token is mapped to a
  non-empty email different from it (the test of the table's size adds nothing: a
  mapped token makes the table non-empty); and 200 otherwise, with
  \<^verbatim>\<open>{ success: true, timestamp }\<close> and the record saved under the resolved
  email. On 400 and 403 the stores are unchanged.
\<close>

theorem sync_handler_responses:
  "(res_status (fst (sync_handler now req srv)) = 400) =
     (\<not> truthy_str (sync_resolvedEmail req srv) \<or>
      (\<not> (truthy_str (sync_tokenEmail req srv) \<and>
           sync_tokenEmail req srv \<noteq> sync_resolvedEmail req srv) \<and>
       body_budget (req_body req) = None)) \<and>
   (res_status (fst (sync_handler now req srv)) = 403) =
     (truthy_str (sync_resolvedEmail req srv) \<and> truthy_str (sync_tokenEmail req srv) \<and>
      sync_tokenEmail req srv \<noteq> sync_resolvedEmail req srv) \<and>
   (res_status (fst (sync_handler now req srv)) = 200) =
     (truthy_str (sync_resolvedEmail req srv) \<and>
      \<not> (truthy_str (sync_tokenEmail req srv) \<and>
         sync_tokenEmail req srv \<noteq> sync_resolvedEmail req srv) \<and>
      body_budget (req_body req) \<noteq> None) \<and>
   (res_status (fst (sync_handler now req srv)) = 200 \<longrightarrow>
      (\<exists>e b. sync_resolvedEmail req srv = Some e \<and> body_budget (req_body req) = Some b \<and>
         sync_handler now req srv =
           (\<lparr>res_status = 200, res_json = SyncJson True now\<rparr>,
            save \<lparr>rec_email = e, rec_budget = b, rec_updatedAt = now\<rparr> srv) \<and>
         latest e (snd (sync_handler now req srv)) =
           Some \<lparr>rec_email = e, rec_budget = b, rec_updatedAt = now\<rparr>)) \<and>
   (res_status (fst (sync_handler now req srv)) \<noteq> 200 \<longrightarrow> snd (sync_handler now req srv) = srv) \<and>
   res_status (fst (sync_handler now req srv)) \<in> {200, 400, 403} \<and>
   (req_authorization req = Some (''Bearer '' @ t) \<longrightarrow>
      sync_tokenEmail req srv = map_of (tokenMap srv) t) \<and>
   sync_resolvedEmail req srv =
     (case body_email (req_body req) of Some e \<Rightarrow> Some e | None \<Rightarrow> sync_tokenEmail req srv)"
proof -
  have size: "length (tokenMap srv) \<noteq> 0" if "truthy_str (sync_tokenEmail req srv)"
    using that by (auto simp: sync_tokenEmail_def)
  have tok: "sync_tokenEmail req srv = map_of (tokenMap srv) t"
    if "req_authorization req = Some (''Bearer '' @ t)"
    using that replace_first_prefix [of "''Bearer ''" "[]" t]
    by (simp add: sync_tokenEmail_def sync_token_def)
  show ?thesis
  proof (cases "truthy_str (sync_resolvedEmail req srv)")
    case False
    then show ?thesis using tok
      by (simp add: sync_handler_def Let_def sync_resolvedEmail_def)
  next
    case True
    then obtain e where e: "sync_resolvedEmail req srv = Some e"
      by (cases "sync_resolvedEmail req srv") auto
    show ?thesis
    proof (cases "truthy_str (sync_tokenEmail req srv) \<and>
        sync_tokenEmail req srv \<noteq> sync_resolvedEmail req srv")
      case mismatch: True
      with True size tok show ?thesis
        by (simp add: sync_handler_def Let_def sync_resolvedEmail_def)
    next
      case ok: False
      show ?thesis
      proof (cases "body_budget (req_body req)")
        case None
        with True ok tok show ?thesis
          by (auto simp: sync_handler_def Let_def sync_resolvedEmail_def)
      next
        case (Some b)
        with True ok e tok show ?thesis
          by (auto simp: sync_handler_def Let_def save_def latest_def update_Some_unfold
              sync_resolvedEmail_def)
      qed
    qed
  qed
qed

theorem sync_handler_responses_witness:
  "sync_handler ''2025-01-01T00:00:00.000Z''
      \<lparr>req_body = \<lparr>body_budget = Some initialBudget, body_email = Some ''hire-me@anshumat.org''\<rparr>,
       req_authorization = Some (''Bearer '' @ demo_token)\<rparr>
      \<lparr>tokenMap = [(demo_token, ''hire-me@anshumat.org'')], memory = []\<rparr> =
     (\<lparr>res_status = 200, res_json = SyncJson True ''2025-01-01T00:00:00.000Z''\<rparr>,
      \<lparr>tokenMap = [(demo_token, ''hire-me@anshumat.org'')],
       memory = [(''hire-me@anshumat.org'',
         \<lparr>rec_email = ''hire-me@anshumat.org'', rec_budget = initialBudget,
          rec_updatedAt = ''2025-01-01T00:00:00.000Z''\<rparr>)]\<rparr>) \<and>
   res_status (fst (sync_handler ''2025-01-01T00:00:00.000Z''
      \<lparr>req_body = \<lparr>body_budget = Some initialBudget, body_email = Some ''other@example.org''\<rparr>,
       req_authorization = Some (''Bearer '' @ demo_token)\<rparr>
      \<lparr>tokenMap = [(demo_token, ''hire-me@anshumat.org'')], memory = []\<rparr>)) = 403 \<and>
   snd (sync_handler ''2025-01-01T00:00:00.000Z''
      \<lparr>req_body = \<lparr>body_budget = Some initialBudget, body_email = Some ''other@example.org''\<rparr>,
       req_authorization = Some (''Bearer '' @ demo_token)\<rparr>
      \<lparr>tokenMap = [(demo_token, ''hire-me@anshumat.org'')], memory = []\<rparr>) =
     \<lparr>tokenMap = [(demo_token, ''hire-me@anshumat.org'')], memory = []\<rparr> \<and>
   res_status (fst (sync_handler ''2025-01-01T00:00:00.000Z''
      \<lparr>req_body = \<lparr>body_budget = None, body_email = Some ''hire-me@anshumat.org''\<rparr>,
       req_authorization = None\<rparr>
      \<lparr>tokenMap = [], memory = []\<rparr>)) = 400"
proof -
  let ?srv = "\<lparr>tokenMap = [(demo_token, ''hire-me@anshumat.org'')], memory = []\<rparr>"
  let ?ok = "\<lparr>req_body = \<lparr>body_budget = Some initialBudget,
       body_email = Some ''hire-me@anshumat.org''\<rparr>, req_authorization = Some (''Bearer '' @ demo_token)\<rparr>"
  let ?bad = "\<lparr>req_body = \<lparr>body_budget = Some initialBudget,
       body_email = Some ''other@example.org''\<rparr>, req_authorization = Some (''Bearer '' @ demo_token)\<rparr>"
  let ?nob = "\<lparr>req_body = \<lparr>body_budget = None, body_email = Some ''hire-me@anshumat.org''\<rparr>,
       req_authorization = None\<rparr>"
  have tok: "sync_tokenEmail ?ok ?srv = Some ''hire-me@anshumat.org''"
    "sync_tokenEmail ?bad ?srv = Some ''hire-me@anshumat.org''"
    "sync_tokenEmail ?nob \<lparr>tokenMap = [], memory = []\<rparr> = None"
    by (simp_all add: sync_tokenEmail_def sync_token_def demo_token_def)
  have res: "sync_resolvedEmail ?ok ?srv = Some ''hire-me@anshumat.org''"
    "sync_resolvedEmail ?bad ?srv = Some ''other@example.org''"
    "sync_resolvedEmail ?nob \<lparr>tokenMap = [], memory = []\<rparr> = Some ''hire-me@anshumat.org''"
    by (simp_all add: sync_resolvedEmail_def)
  from tok res sync_handler_responses [of "''2025-01-01T00:00:00.000Z''" ?ok ?srv demo_token]
  have a: "sync_handler ''2025-01-01T00:00:00.000Z'' ?ok ?srv =
     (\<lparr>res_status = 200, res_json = SyncJson True ''2025-01-01T00:00:00.000Z''\<rparr>,
      save \<lparr>rec_email = ''hire-me@anshumat.org'', rec_budget = initialBudget,
          rec_updatedAt = ''2025-01-01T00:00:00.000Z''\<rparr> ?srv)"
    by simp
  from tok res sync_handler_responses [of "''2025-01-01T00:00:00.000Z''" ?bad ?srv demo_token]
  have b: "res_status (fst (sync_handler ''2025-01-01T00:00:00.000Z'' ?bad ?srv)) = 403"
    "snd (sync_handler ''2025-01-01T00:00:00.000Z'' ?bad ?srv) = ?srv"
    by simp_all
  from tok res sync_handler_responses [of "''2025-01-01T00:00:00.000Z''" ?nob
      "\<lparr>tokenMap = [], memory = []\<rparr>" demo_token]
  have c: "res_status (fst (sync_handler ''2025-01-01T00:00:00.000Z'' ?nob
      \<lparr>tokenMap = [], memory = []\<rparr>)) = 400"
    by simp
  from a b c show ?thesis by (simp add: save_def)
qed

subsection \<open>A push and a pull against the service\<close>

text \<open>
  The request \<^verbatim>\<open>syncToServer\<close> sends always carries the budget and the email of
  the store, so the handler answers it 200, 400 (the email is empty) or 403, and the
  client ends synced with the server's timestamp in the first case and local-only in the
  other two. After a push that was answered 200, a pull of the same email brings the
  pushed budget back.
\<close>

lemma sync_request_body:
  "body_budget (req_body (sync_request s)) = Some (budget s)"
  "body_email (req_body (sync_request s)) = Some (userEmail s)"
  "sync_resolvedEmail (sync_request s) srv = Some (userEmail s)"
  by (simp_all add: sync_request_def sync_resolvedEmail_def)

lemma sync_handler_of_sync_request:
  "sync_handler t (sync_request s) srv =
     (\<lparr>res_status = 200, res_json = SyncJson True t\<rparr>,
      save \<lparr>rec_email = userEmail s, rec_budget = budget s, rec_updatedAt = t\<rparr> srv) \<or>
   sync_handler t (sync_request s) srv =
     (\<lparr>res_status = 400, res_json = ErrorJson ''Email is required''\<rparr>, srv) \<or>
   sync_handler t (sync_request s) srv =
     (\<lparr>res_status = 403, res_json = ErrorJson ''Token does not match email''\<rparr>, srv)"
  by (simp add: sync_handler_def sync_request_body Let_def)

lemma latest_save: "latest (rec_email r) (save r srv) = Some r"
  by (simp add: latest_def save_def update_Some_unfold)

lemma sync_round_trip:
  "(res_status (fst (sync_handler t (sync_request (store p)) srv)) = 200 \<and>
    syncStatus (store (snd (syncToServer
      (sync_outcome_of (fst (sync_handler t (sync_request (store p)) srv))) now p))) = Synced \<and>
    lastSyncedAt (store (snd (syncToServer
      (sync_outcome_of (fst (sync_handler t (sync_request (store p)) srv))) now p))) = Some t \<and>
    latest (userEmail (store p)) (snd (sync_handler t (sync_request (store p)) srv)) =
      Some \<lparr>rec_email = userEmail (store p), rec_budget = budget (store p), rec_updatedAt = t\<rparr>) \<or>
   (res_status (fst (sync_handler t (sync_request (store p)) srv)) \<in> {400, 403} \<and>
    syncStatus (store (snd (syncToServer
      (sync_outcome_of (fst (sync_handler t (sync_request (store p)) srv))) now p))) = LocalOnly \<and>
    snd (sync_handler t (sync_request (store p)) srv) = srv)"
proof -
  have l: "latest (userEmail (store p))
      (save \<lparr>rec_email = userEmail (store p), rec_budget = budget (store p), rec_updatedAt = t\<rparr> srv) =
      Some \<lparr>rec_email = userEmail (store p), rec_budget = budget (store p), rec_updatedAt = t\<rparr>"
    using latest_save [of "\<lparr>rec_email = userEmail (store p), rec_budget = budget (store p),
      rec_updatedAt = t\<rparr>" srv] by simp
  from sync_handler_of_sync_request [of t "store p" srv] l show ?thesis
    by (auto simp: sync_outcome_of_def syncToServer_def sync_finish_def sync_begin_def
        sync_catch_def res_ok_def setSyncStatus_def markSynced_def Let_def)
qed

lemma fetch_after_sync:
  "res_status (fst (sync_handler t (sync_request (store p)) srv)) = 200 \<Longrightarrow>
   budget (store (fetchLatest
     (latest_outcome_of (latest_handler demo (Some (userEmail (store p)))
        (snd (sync_handler t (sync_request (store p)) srv)))) now q)) = budget (store p)"
  using sync_handler_of_sync_request [of t "store p" srv]
    latest_save [of "\<lparr>rec_email = userEmail (store p), rec_budget = budget (store p),
      rec_updatedAt = t\<rparr>" srv]
  by (auto simp: latest_outcome_of_def latest_handler_def fetchLatest_def hydrateFromServer_def)

end
